theory Spec2Isabelle
  imports Main "HOL-Library.Multiset"
begin

section \<open>Schema nodes of the intermediate tree\<close>

text \<open>
  The type \<^verbatim>\<open>Schema\<close> is declared in \<^verbatim>\<open>@kubb/plugin-oas\<close>; only its use is under
  \<^verbatim>\<open>src/\<close>. It is a closed tagged union: a \<^verbatim>\<open>keyword\<close> and, for some keywords,
  \<^verbatim>\<open>args\<close>. The constructors below carry, per keyword, exactly the parts of
  \<^verbatim>\<open>args\<close> that \<^verbatim>\<open>parse\<close> in \<^verbatim>\<open>plugin-zod/src/parser.ts\<close> reads.

  A JavaScript \<^verbatim>\<open>string | number | boolean\<close> is \<open>jsval\<close>; numbers are integral
  (they only ever appear interpolated into a template literal). \<open>JObject\<close> stands for
  a default value whose \<^verbatim>\<open>typeof\<close> is \<^verbatim>\<open>'object'\<close>.
\<close>

datatype jsval = JString string | JNumber int | JBoolean bool | JObject

datatype format = FormatString | FormatNumber | FormatBoolean

datatype datetype = TypeDate | TypeString

datatype version = V3 | V4

text \<open>Members of an enum and the \<^verbatim>\<open>args\<close> of a const node: \<^verbatim>\<open>{ format, value? }\<close>.\<close>

record literal =
  lit_format :: format
  lit_value :: "jsval option"

datatype schema =
    SAny | SUnknown | SVoid
  | SNumber | SInteger | SString | SBoolean
  | SInterface
  | SObject "(string \<times> schema list) list" "schema list" "bool option"
      \<comment> \<open>\<^verbatim>\<open>properties\<close> in \<^verbatim>\<open>Object.entries\<close> order, \<^verbatim>\<open>additionalProperties\<close>, \<^verbatim>\<open>strict\<close>\<close>
  | SUndefined | SNullable | SNull | SNullish
  | SArray "schema list" "int option" "int option" "bool option"
      \<comment> \<open>\<^verbatim>\<open>items\<close>, \<^verbatim>\<open>min\<close>, \<^verbatim>\<open>max\<close>, \<^verbatim>\<open>unique\<close>\<close>
  | STuple "schema list"
  | SEnum bool "literal list"
      \<comment> \<open>\<^verbatim>\<open>asConst\<close>, \<^verbatim>\<open>items\<close>\<close>
  | SUnion "schema list"
  | SConst literal
  | SDatetime "bool option" "bool option"
      \<comment> \<open>\<^verbatim>\<open>offset\<close>, \<^verbatim>\<open>local\<close>\<close>
  | SDate "datetype option"
  | STime "datetype option"
  | SUuid | SUrl | SEmail
  | SDefault jsval
  | SAnd "schema list"
  | SDescribe string
  | SMin int
  | SMax int
  | SOptional
  | SMatches "string option"
  | SFirstName | SLastName | SPassword | SPhone | SReadOnly | SWriteOnly
  | SRef "string option"
      \<comment> \<open>\<^verbatim>\<open>args?.name\<close>\<close>
  | SBlob | SDeprecated
  | SExample string
  | SSchema
  | SCatchall
  | SName string

text \<open>
  \<^verbatim>\<open>schemaKeywords\<close> (a table of \<^verbatim>\<open>@kubb/plugin-oas\<close>) maps every keyword to the string of
  the same spelling, the key under which \<^verbatim>\<open>zodKeywordMapper\<close> holds its handler.
\<close>

fun keyword :: "schema \<Rightarrow> string" where
  "keyword SAny = ''any''"
| "keyword SUnknown = ''unknown''"
| "keyword SVoid = ''void''"
| "keyword SNumber = ''number''"
| "keyword SInteger = ''integer''"
| "keyword SString = ''string''"
| "keyword SBoolean = ''boolean''"
| "keyword SInterface = ''interface''"
| "keyword (SObject ps aps st) = ''object''"
| "keyword SUndefined = ''undefined''"
| "keyword SNullable = ''nullable''"
| "keyword SNull = ''null''"
| "keyword SNullish = ''nullish''"
| "keyword (SArray its mn mx un) = ''array''"
| "keyword (STuple its) = ''tuple''"
| "keyword (SEnum ac its) = ''enum''"
| "keyword (SUnion ms) = ''union''"
| "keyword (SConst c) = ''const''"
| "keyword (SDatetime off loc) = ''datetime''"
| "keyword (SDate t) = ''date''"
| "keyword (STime t) = ''time''"
| "keyword SUuid = ''uuid''"
| "keyword SUrl = ''url''"
| "keyword SEmail = ''email''"
| "keyword (SDefault v) = ''default''"
| "keyword (SAnd ms) = ''and''"
| "keyword (SDescribe d) = ''describe''"
| "keyword (SMin n) = ''min''"
| "keyword (SMax n) = ''max''"
| "keyword SOptional = ''optional''"
| "keyword (SMatches m) = ''matches''"
| "keyword SFirstName = ''firstName''"
| "keyword SLastName = ''lastName''"
| "keyword SPassword = ''password''"
| "keyword SPhone = ''phone''"
| "keyword SReadOnly = ''readOnly''"
| "keyword SWriteOnly = ''writeOnly''"
| "keyword (SRef r) = ''ref''"
| "keyword SBlob = ''blob''"
| "keyword SDeprecated = ''deprecated''"
| "keyword (SExample e) = ''example''"
| "keyword SSchema = ''schema''"
| "keyword SCatchall = ''catchall''"
| "keyword (SName n) = ''name''"

definition isKeyword :: "schema \<Rightarrow> string \<Rightarrow> bool" where
  "isKeyword meta k = (keyword meta = k)"

section \<open>Canonical sibling order: \<^verbatim>\<open>sort\<close>\<close>

text \<open>\<^verbatim>\<open>Array.prototype.indexOf\<close>: the first index holding the element, \<open>-1\<close> when absent.\<close>

fun indexOf_from :: "'a list \<Rightarrow> 'a \<Rightarrow> int \<Rightarrow> int" where
  "indexOf_from [] x i = - 1"
| "indexOf_from (y # ys) x i = (if y = x then i else indexOf_from ys x (i + 1))"

definition indexOf :: "'a list \<Rightarrow> 'a \<Rightarrow> int" where
  "indexOf xs x = indexOf_from xs x 0"

text \<open>
  Modelled from the spec: \<^verbatim>\<open>transformers.orderBy\<close> of \<^verbatim>\<open>@kubb/core\<close> is not under
  \<^verbatim>\<open>src/\<close>. Called with one numeric key and \<^verbatim>\<open>['asc']\<close> it is the ascending stable sort
  by that key: the spec's sibling ordering is ``fixed system-wide'', and nodes of equal key
  keep their relative order.
\<close>

definition orderBy :: "'a list \<Rightarrow> ('a \<Rightarrow> int) \<Rightarrow> 'a list" where
  "orderBy items f = sort_key f items"

definition order :: "string list" where
  "order =
    [''string'', ''datetime'', ''date'', ''time'', ''tuple'', ''number'', ''object'', ''enum'',
     ''url'', ''email'', ''firstName'', ''lastName'', ''password'', ''matches'', ''uuid'',
     ''null'', ''min'', ''max'', ''default'', ''describe'', ''optional'', ''nullable'',
     ''nullish'']"

text \<open>\<^verbatim>\<open>sort(items?)\<close>: an absent list sorts to the empty list.\<close>

definition sort_schemas :: "schema list option \<Rightarrow> schema list" where
  "sort_schemas items =
     (case items of
        None \<Rightarrow> []
      | Some its \<Rightarrow> orderBy its (\<lambda>v. indexOf order (keyword v)))"

text \<open>
  The groups the specification names, in its words: primary and format nodes (every keyword
  that is not one of the seven modifiers below) are group 0, the bound constraints group 1,
  default and describe group 2, optional, nullable and nullish group 3.
\<close>

definition sibling_group :: "string \<Rightarrow> nat" where
  "sibling_group k =
     (if k \<in> {''optional'', ''nullable'', ''nullish''} then 3
      else if k \<in> {''default'', ''describe''} then 2
      else if k \<in> {''min'', ''max''} then 1
      else 0)"

section \<open>JavaScript strings and arrays\<close>

text \<open>\<^verbatim>\<open>.filter(Boolean)\<close> on an array of \<^verbatim>\<open>string | undefined\<close>: drops \<^verbatim>\<open>undefined\<close> and \<^verbatim>\<open>''\<close>.\<close>

fun filter_Boolean :: "string option list \<Rightarrow> string list" where
  "filter_Boolean [] = []"
| "filter_Boolean (None # xs) = filter_Boolean xs"
| "filter_Boolean (Some s # xs) = (if s = [] then filter_Boolean xs else s # filter_Boolean xs)"

text \<open>\<^verbatim>\<open>Array.prototype.join(sep)\<close>.\<close>

fun join :: "string list \<Rightarrow> string \<Rightarrow> string" where
  "join [] sep = []"
| "join [x] sep = x"
| "join (x # y # ys) sep = x @ sep @ join (y # ys) sep"

text \<open>A number, a boolean or a string interpolated into a template literal.\<close>

definition digit :: "nat \<Rightarrow> char" where
  "digit d = ''0123456789'' ! d"

fun show_nat :: "nat \<Rightarrow> string" where
  "show_nat n = (if n < 10 then [digit n] else show_nat (n div 10) @ [digit (n mod 10)])"

declare show_nat.simps [simp del]

definition show_int :: "int \<Rightarrow> string" where
  "show_int i = (if i < 0 then ''-'' @ show_nat (nat (- i)) else show_nat (nat i))"

definition show_bool :: "bool \<Rightarrow> string" where
  "show_bool b = (if b then ''true'' else ''false'')"

fun template :: "jsval \<Rightarrow> string" where
  "template (JString s) = s"
| "template (JNumber n) = show_int n"
| "template (JBoolean b) = show_bool b"
| "template JObject = ''[object Object]''"

text \<open>An optional string interpolated: \<^verbatim>\<open>undefined\<close> prints as the word.\<close>

definition template_opt :: "string option \<Rightarrow> string" where
  "template_opt v = (case v of None \<Rightarrow> ''undefined'' | Some s \<Rightarrow> s)"

fun truthy :: "jsval \<Rightarrow> bool" where
  "truthy (JString s) = (s \<noteq> [])"
| "truthy (JNumber n) = (n \<noteq> 0)"
| "truthy (JBoolean b) = b"
| "truthy JObject = True"

definition truthy_string :: "string option \<Rightarrow> bool" where
  "truthy_string v = (case v of None \<Rightarrow> False | Some s \<Rightarrow> s \<noteq> [])"

definition truthy_bool :: "bool option \<Rightarrow> bool" where
  "truthy_bool v = (case v of None \<Rightarrow> False | Some b \<Rightarrow> b)"

text \<open>A call that throws: the only exception of the modelled code is a \<^verbatim>\<open>TypeError\<close>.\<close>

datatype error = TypeError

definition dquote :: string where
  "dquote = [CHR 0x22]"

definition newline :: string where
  "newline = [CHR 0x0A]"

section \<open>\<^verbatim>\<open>zodKeywordMapper\<close>\<close>

text \<open>
  One definition per entry of the table that holds a function. An optional parameter is an
  \<open>option\<close>; a parameter with a default takes the default at \<open>None\<close>.
\<close>

definition bound :: "string \<Rightarrow> int option \<Rightarrow> string option" where
  "bound method v = (case v of None \<Rightarrow> None | Some n \<Rightarrow> Some (method @ ''('' @ show_int n @ '')''))"

definition zodKeywordMapper_any :: string where
  "zodKeywordMapper_any = ''z.any()''"

definition zodKeywordMapper_unknown :: string where
  "zodKeywordMapper_unknown = ''z.unknown()''"

definition zodKeywordMapper_void :: string where
  "zodKeywordMapper_void = ''z.void()''"

definition zodKeywordMapper_number :: "bool \<Rightarrow> int option \<Rightarrow> int option \<Rightarrow> string" where
  "zodKeywordMapper_number coercion mn mx =
     join (filter_Boolean
       [Some (if coercion then ''z.coerce.number()'' else ''z.number()''),
        bound ''.min'' mn, bound ''.max'' mx]) []"

definition zodKeywordMapper_integer :: "bool \<Rightarrow> int option \<Rightarrow> int option \<Rightarrow> version \<Rightarrow> string" where
  "zodKeywordMapper_integer coercion mn mx version =
     join (filter_Boolean
       [Some (if coercion then ''z.coerce.number().int()''
              else if version = V4 then ''z.int()'' else ''z.number().int()''),
        bound ''.min'' mn, bound ''.max'' mx]) []"

definition zodKeywordMapper_interface :: "string option \<Rightarrow> bool option \<Rightarrow> string" where
  "zodKeywordMapper_interface v strict =
     (if truthy_bool strict
      then ''z.strictInterface({'' @ newline @ ''    '' @ template_opt v @ newline @ ''    })''
      else ''z.interface({'' @ newline @ ''    '' @ template_opt v @ newline @ ''    })'')"

definition zodKeywordMapper_object :: "string option \<Rightarrow> bool option \<Rightarrow> version \<Rightarrow> string" where
  "zodKeywordMapper_object v strict version =
     (if version = V4 \<and> truthy_bool strict
      then ''z.strictObject({'' @ newline @ ''    '' @ template_opt v @ newline @ ''    })''
      else if truthy_bool strict
      then ''z.object({'' @ newline @ ''    '' @ template_opt v @ newline @ ''    }).strict()''
      else ''z.object({'' @ newline @ ''    '' @ template_opt v @ newline @ ''    })'')"

definition zodKeywordMapper_string :: "bool \<Rightarrow> int option \<Rightarrow> int option \<Rightarrow> string" where
  "zodKeywordMapper_string coercion mn mx =
     join (filter_Boolean
       [Some (if coercion then ''z.coerce.string()'' else ''z.string()''),
        bound ''.min'' mn, bound ''.max'' mx]) []"

definition zodKeywordMapper_boolean :: string where
  "zodKeywordMapper_boolean = ''z.boolean()''"

definition zodKeywordMapper_undefined :: string where
  "zodKeywordMapper_undefined = ''z.undefined()''"

definition zodKeywordMapper_nullable :: string where
  "zodKeywordMapper_nullable = ''.nullable()''"

definition zodKeywordMapper_null :: string where
  "zodKeywordMapper_null = ''z.null()''"

definition zodKeywordMapper_nullish :: string where
  "zodKeywordMapper_nullish = ''.nullish()''"

definition zodKeywordMapper_array ::
  "string list \<Rightarrow> int option \<Rightarrow> int option \<Rightarrow> bool option \<Rightarrow> string" where
  "zodKeywordMapper_array items mn mx unique =
     join (filter_Boolean
       [Some (''z.array('' @ join items [] @ '')''),
        bound ''.min'' mn, bound ''.max'' mx,
        (if truthy_bool unique
         then Some (''.refine(items => new Set(items).size === items.length, { message: ''
                    @ dquote @ ''Array entries must be unique'' @ dquote @ '' })'')
         else None)]) []"

definition zodKeywordMapper_tuple :: "string list \<Rightarrow> string" where
  "zodKeywordMapper_tuple items = ''z.tuple(['' @ join items '', '' @ ''])''"

definition zodKeywordMapper_enum :: "string list \<Rightarrow> string" where
  "zodKeywordMapper_enum items = ''z.enum(['' @ join items '', '' @ ''])''"

definition zodKeywordMapper_union :: "string list \<Rightarrow> string" where
  "zodKeywordMapper_union items = ''z.union(['' @ join items '', '' @ ''])''"

definition zodKeywordMapper_const :: "jsval option \<Rightarrow> string" where
  "zodKeywordMapper_const v =
     ''z.literal('' @ (case v of None \<Rightarrow> [] | Some x \<Rightarrow> template x) @ '')''"

definition zodKeywordMapper_datetime :: "bool option \<Rightarrow> bool option \<Rightarrow> version \<Rightarrow> string" where
  "zodKeywordMapper_datetime offset local version =
     (if truthy_bool offset
      then (if version = V4 then ''z.iso.datetime({ offset: true })''
            else ''z.string().datetime({ offset: true })'')
      else if truthy_bool local
      then (if version = V4 then ''z.iso.datetime({ local: true })''
            else ''z.string().datetime({ local: true })'')
      else ''z.string().datetime()'')"

definition zodKeywordMapper_date :: "datetype option \<Rightarrow> bool \<Rightarrow> version \<Rightarrow> string" where
  "zodKeywordMapper_date t coercion version =
     (if t = None \<or> t = Some TypeString
      then (if version = V4 then ''z.iso.date()'' else ''z.string().date()'')
      else if coercion then ''z.coerce.date()''
      else ''z.date()'')"

definition zodKeywordMapper_time :: "datetype option \<Rightarrow> bool \<Rightarrow> version \<Rightarrow> string" where
  "zodKeywordMapper_time t coercion version =
     (if t = None \<or> t = Some TypeString
      then (if version = V4 then ''z.iso.time()'' else ''z.string().time()'')
      else if coercion then ''z.coerce.date()''
      else ''z.date()'')"

definition zodKeywordMapper_uuid :: "bool \<Rightarrow> version \<Rightarrow> string" where
  "zodKeywordMapper_uuid coercion version =
     (if version = V4 then (if coercion then ''z.coerce.string().uuid()'' else ''z.uuid()'')
      else if coercion then ''z.coerce.string().uuid()'' else ''z.string().uuid()'')"

definition zodKeywordMapper_url :: "bool \<Rightarrow> version \<Rightarrow> string" where
  "zodKeywordMapper_url coercion version =
     (if version = V4 then (if coercion then ''z.coerce.string().url()'' else ''z.url()'')
      else if coercion then ''z.coerce.string().url()'' else ''z.string().url()'')"

definition zodKeywordMapper_default :: "jsval option \<Rightarrow> string" where
  "zodKeywordMapper_default v =
     (if v = Some JObject then ''.default({})''
      else ''.default('' @ (case v of None \<Rightarrow> [] | Some x \<Rightarrow> template x) @ '')'')"

definition zodKeywordMapper_and :: "string list \<Rightarrow> string" where
  "zodKeywordMapper_and items = join (map (\<lambda>item. ''.and('' @ item @ '')'') items) []"

definition zodKeywordMapper_describe :: "string option \<Rightarrow> string" where
  "zodKeywordMapper_describe v =
     ''.describe('' @ (case v of None \<Rightarrow> [] | Some s \<Rightarrow> s) @ '')''"

definition zodKeywordMapper_min :: "int option \<Rightarrow> string" where
  "zodKeywordMapper_min v = ''.min('' @ (case v of None \<Rightarrow> [] | Some n \<Rightarrow> show_int n) @ '')''"

definition zodKeywordMapper_max :: "int option \<Rightarrow> string" where
  "zodKeywordMapper_max v = ''.max('' @ (case v of None \<Rightarrow> [] | Some n \<Rightarrow> show_int n) @ '')''"

definition zodKeywordMapper_optional :: string where
  "zodKeywordMapper_optional = ''.optional()''"

definition zodKeywordMapper_matches :: "string option \<Rightarrow> bool \<Rightarrow> string" where
  "zodKeywordMapper_matches v coercion =
     (if coercion then ''z.coerce.string().regex('' @ (case v of None \<Rightarrow> [] | Some s \<Rightarrow> s) @ '')''
      else ''z.string().regex('' @ (case v of None \<Rightarrow> [] | Some s \<Rightarrow> s) @ '')'')"

definition zodKeywordMapper_email :: "bool \<Rightarrow> version \<Rightarrow> string" where
  "zodKeywordMapper_email coercion version =
     (if version = V4 then (if coercion then ''z.coerce.string().email()'' else ''z.email()'')
      else if coercion then ''z.coerce.string().email()'' else ''z.string().email()'')"

definition zodKeywordMapper_ref :: "string option \<Rightarrow> version \<Rightarrow> string option" where
  "zodKeywordMapper_ref v version =
     (if \<not> truthy_string v then None
      else if version = V4 then v
      else Some (''z.lazy(() => '' @ the v @ '')''))"

definition zodKeywordMapper_blob :: string where
  "zodKeywordMapper_blob = ''z.instanceof(File)''"

definition zodKeywordMapper_catchall :: "string option \<Rightarrow> string option" where
  "zodKeywordMapper_catchall v =
     (if truthy_string v then Some (''.catchall('' @ the v @ '')'') else None)"

text \<open>
  The keys of the table in source order, and those it maps to \<^verbatim>\<open>undefined\<close>.
\<close>

definition zodKeywordMapper_keys :: "string list" where
  "zodKeywordMapper_keys =
    [''any'', ''unknown'', ''void'', ''number'', ''integer'', ''interface'', ''object'',
     ''string'', ''boolean'', ''undefined'', ''nullable'', ''null'', ''nullish'', ''array'',
     ''tuple'', ''enum'', ''union'', ''const'', ''datetime'', ''date'', ''time'', ''uuid'',
     ''url'', ''default'', ''and'', ''describe'', ''min'', ''max'', ''optional'', ''matches'',
     ''email'', ''firstName'', ''lastName'', ''password'', ''phone'', ''readOnly'',
     ''writeOnly'', ''ref'', ''blob'', ''deprecated'', ''example'', ''schema'', ''catchall'',
     ''name'']"


text \<open>
  The table is an object literal, so a property read and the \<^verbatim>\<open>in\<close> operator go on to
  \<^verbatim>\<open>Object.prototype\<close> for a name that is no key of the table. These are its members.
\<close>

datatype prototype_member =
    Constructor | DefineGetter | DefineSetter | HasOwnProperty | LookupGetter | LookupSetter
  | IsPrototypeOf | PropertyIsEnumerable | ToString | ValueOf | Proto | ToLocaleString

definition Object_prototype :: "string \<Rightarrow> prototype_member option" where
  "Object_prototype k =
     (if k = ''constructor'' then Some Constructor
      else if k = ''__defineGetter__'' then Some DefineGetter
      else if k = ''__defineSetter__'' then Some DefineSetter
      else if k = ''hasOwnProperty'' then Some HasOwnProperty
      else if k = ''__lookupGetter__'' then Some LookupGetter
      else if k = ''__lookupSetter__'' then Some LookupSetter
      else if k = ''isPrototypeOf'' then Some IsPrototypeOf
      else if k = ''propertyIsEnumerable'' then Some PropertyIsEnumerable
      else if k = ''toString'' then Some ToString
      else if k = ''valueOf'' then Some ValueOf
      else if k = ''__proto__'' then Some Proto
      else if k = ''toLocaleString'' then Some ToLocaleString
      else None)"


definition zodKeywordMapper_in :: "string \<Rightarrow> bool" where
  "zodKeywordMapper_in k = (k \<in> set zodKeywordMapper_keys \<or> Object_prototype k \<noteq> None)"

section \<open>The parser of \<^verbatim>\<open>plugin-zod\<close>\<close>

text \<open>\<^verbatim>\<open>ParserOptions['coercion']\<close>: a boolean, or one optional flag per kind.\<close>

datatype coercion = CoercionAll bool | CoercionPer "bool option" "bool option" "bool option"
  \<comment> \<open>\<^verbatim>\<open>{ dates?, strings?, numbers? }\<close>\<close>

datatype coercion_type = Dates | Strings | Numbers

definition shouldCoerce :: "coercion option \<Rightarrow> coercion_type \<Rightarrow> bool" where
  "shouldCoerce c t =
     (case c of
        None \<Rightarrow> False
      | Some (CoercionAll b) \<Rightarrow> b
      | Some (CoercionPer d s n) \<Rightarrow>
          truthy_bool (case t of Dates \<Rightarrow> d | Strings \<Rightarrow> s | Numbers \<Rightarrow> n))"

text \<open>
  What the parser imports and this repository's \<^verbatim>\<open>src/\<close> does not hold is a parameter:
  \<^verbatim>\<open>transformers.stringify\<close>, \<^verbatim>\<open>transformers.toRegExpString(_, null)\<close>, the built-in
  \<^verbatim>\<open>Number\<close> and \<^verbatim>\<open>SchemaGenerator.find\<close>.
\<close>

record externals =
  stringify :: "jsval option \<Rightarrow> string"
  toRegExpString :: "string \<Rightarrow> string"
  js_Number :: "jsval \<Rightarrow> jsval"
  SchemaGenerator_find :: "schema list \<Rightarrow> string \<Rightarrow> schema option"

text \<open>
  \<^verbatim>\<open>ParserOptions\<close>, the fields \<^verbatim>\<open>parse\<close> reads. \<open>'r\<close> is the type of a raw schema
  object; \<open>rawSchema_properties\<close> is \<^verbatim>\<open>rawSchema?.properties?.[name]\<close>.
\<close>

record 'r ParserOptions =
  mapper :: "(string \<Rightarrow> string option) option"
  coercion :: "coercion option"
  wrapOutput :: "(string \<Rightarrow> 'r option \<Rightarrow> string option) option"
  rawSchema_properties :: "string \<Rightarrow> 'r option"
  version :: version

text \<open>
  One property of an object node: the body of the callback mapped over the property
  entries, given the joined output of the property's own schemas.
\<close>

definition object_property ::
  "externals \<Rightarrow> 'r ParserOptions \<Rightarrow> string \<Rightarrow> schema list \<Rightarrow> string \<Rightarrow> string" where
  "object_property E options pname schemas baseSchemaOutput =
     (let mappedName =
            (case find (\<lambda>s. keyword s = ''name'') schemas of
               Some (SName a) \<Rightarrow> if a \<noteq> [] then a else pname
             | _ \<Rightarrow> pname);
          mapped = (case mapper options of None \<Rightarrow> None | Some m \<Rightarrow> m mappedName)
      in if truthy_string mapped then dquote @ pname @ dquote @ '': '' @ the mapped
         else
           let objectValue =
                 (case wrapOutput options of
                    None \<Rightarrow> baseSchemaOutput
                  | Some w \<Rightarrow>
                      (let r = w baseSchemaOutput (rawSchema_properties options pname)
                       in if truthy_string r then the r else baseSchemaOutput))
           in if version options = V4 \<and> SchemaGenerator_find E schemas ''ref'' \<noteq> None
              then ''get '' @ pname @ ''(){'' @ newline @ ''                return ''
                   @ objectValue @ newline @ ''              }''
              else dquote @ pname @ dquote @ '': '' @ objectValue)"

text \<open>The branch of \<^verbatim>\<open>parse\<close> for a const node; it calls \<^verbatim>\<open>parse\<close> nowhere.\<close>

definition parse_const :: "externals \<Rightarrow> literal \<Rightarrow> string" where
  "parse_const E c =
     (if lit_format c = FormatNumber \<and> lit_value c \<noteq> None
      then zodKeywordMapper_const (Some (js_Number E (the (lit_value c))))
      else if lit_format c = FormatBoolean \<and> lit_value c \<noteq> None
      then zodKeywordMapper_const (lit_value c)
      else zodKeywordMapper_const (Some (JString (stringify E (lit_value c)))))"

text \<open>
  \<^verbatim>\<open>parse({ parent, current, name, siblings }, options)\<close>. The result is
  \<^verbatim>\<open>string | undefined\<close>. The equations follow the source's chain of tests on the keyword,
  in its order; a node whose keyword the table maps to \<^verbatim>\<open>undefined\<close> leaves at the first
  test (\<^verbatim>\<open>if (!value) return undefined\<close>).

  A matches, default or describe node whose \<^verbatim>\<open>args\<close> are falsy falls through its own test
  and is answered by the generic call \<^verbatim>\<open>value(args)\<close>, the same handler without coercion
  and without \<^verbatim>\<open>stringify\<close>. The nodes of the last equations carry no \<^verbatim>\<open>args\<close>, so
  \<^verbatim>\<open>'args' in current\<close> is false for them and they reach \<^verbatim>\<open>value()\<close>. Every value of
  \<^verbatim>\<open>properties\<close> is an array of schemas, so the filter on the property entries keeps all.
\<close>

function (sequential) parse ::
  "externals \<Rightarrow> 'r ParserOptions \<Rightarrow> schema option \<Rightarrow> string option \<Rightarrow> schema list \<Rightarrow> schema
     \<Rightarrow> string option" where
  "parse E options parent name siblings SFirstName = None"
| "parse E options parent name siblings SLastName = None"
| "parse E options parent name siblings SPassword = None"
| "parse E options parent name siblings SPhone = None"
| "parse E options parent name siblings SReadOnly = None"
| "parse E options parent name siblings SWriteOnly = None"
| "parse E options parent name siblings SDeprecated = None"
| "parse E options parent name siblings (SExample e) = None"
| "parse E options parent name siblings SSchema = None"
| "parse E options parent name siblings (SName n) = None"
| "parse E options parent name siblings (SUnion [m]) =
     parse E options parent name siblings m"
| "parse E options parent name siblings (SUnion []) = Some []"
| "parse E options parent name siblings (SUnion args) =
     Some (zodKeywordMapper_union
       (filter_Boolean
         (map (\<lambda>schema. parse E options (Some (SUnion args)) name (sort_schemas (Some args)) schema)
           (sort_schemas (Some args)))))"
| "parse E options parent name siblings (SAnd args) =
     (let members =
            filter (\<lambda>schema. keyword schema \<notin> set [''optional'', ''describe''])
              (sort_schemas (Some args));
          items =
            filter_Boolean
              (map (\<lambda>schema. parse E options (Some (SAnd args)) name members schema) members)
      in Some (join (take 1 items) '','' @ zodKeywordMapper_and (drop 1 items)))"
| "parse E options parent name siblings (SArray items mn mx unique) =
     Some (zodKeywordMapper_array
       (filter_Boolean
         (map (\<lambda>schemas. parse E options (Some (SArray items mn mx unique)) name
                 (sort_schemas (Some items)) schemas)
           (sort_schemas (Some items))))
       mn mx unique)"
| "parse E options parent name siblings (SEnum asConst items) =
     (if asConst then
        (if length items = 1 then
           parse E options (Some (SEnum asConst items)) name [SConst (items ! 0)]
             (SConst (items ! 0))
         else
           Some (zodKeywordMapper_union
             (filter_Boolean
               (map (\<lambda>schema. parse E options (Some (SEnum asConst items)) name
                       (map SConst items) schema)
                 (map SConst items)))))
      else Some (zodKeywordMapper_enum (map (\<lambda>schema. stringify E (lit_value schema)) items)))"
| "parse E options parent name siblings (SRef r) = zodKeywordMapper_ref r (version options)"
| "parse E options parent name siblings (SObject properties additionalProperties strict) =
     (let props =
            join
              (map (\<lambda>(pname, schemas).
                      object_property E options pname schemas
                        (join
                          (filter_Boolean
                            (map (\<lambda>schema.
                                    parse E options
                                      (Some (SObject properties additionalProperties strict))
                                      (Some pname) schemas schema)
                              (sort_schemas (Some schemas))))
                          []))
                properties)
              ('','' @ newline);
          additional =
            (if additionalProperties \<noteq> [] then
               Some (join
                 (filter_Boolean
                   (map (\<lambda>schema.
                           parse E options
                             (Some (SObject properties additionalProperties strict))
                             name additionalProperties schema)
                     additionalProperties))
                 [])
             else None)
      in Some (join
           (filter_Boolean
             [Some (zodKeywordMapper_object (Some props) strict (version options)),
              (if truthy_string additional then zodKeywordMapper_catchall additional else None)])
           []))"
| "parse E options parent name siblings (STuple items) =
     Some (zodKeywordMapper_tuple
       (filter_Boolean
         (map (\<lambda>schema. parse E options (Some (STuple items)) name items schema) items)))"
| "parse E options parent name siblings (SConst c) = Some (parse_const E c)"
| "parse E options parent name siblings (SMatches m) =
     (if truthy_string m
      then Some (zodKeywordMapper_matches (Some (toRegExpString E (the m)))
                   (shouldCoerce (coercion options) Strings))
      else Some (zodKeywordMapper_matches m False))"
| "parse E options parent name siblings (SDefault v) =
     (if truthy v then Some (zodKeywordMapper_default (Some v))
      else Some (zodKeywordMapper_default (Some v)))"
| "parse E options parent name siblings (SDescribe d) =
     (if d \<noteq> []
      then Some (zodKeywordMapper_describe (Some (stringify E (Some (JString d)))))
      else Some (zodKeywordMapper_describe (Some d)))"
| "parse E options parent name siblings SString =
     Some (zodKeywordMapper_string (shouldCoerce (coercion options) Strings) None None)"
| "parse E options parent name siblings SUuid =
     Some (zodKeywordMapper_uuid (shouldCoerce (coercion options) Strings) (version options))"
| "parse E options parent name siblings SEmail =
     Some (zodKeywordMapper_email (shouldCoerce (coercion options) Strings) (version options))"
| "parse E options parent name siblings SUrl =
     Some (zodKeywordMapper_url (shouldCoerce (coercion options) Strings) (version options))"
| "parse E options parent name siblings SNumber =
     Some (zodKeywordMapper_number (shouldCoerce (coercion options) Numbers) None None)"
| "parse E options parent name siblings SInteger =
     Some (zodKeywordMapper_integer (shouldCoerce (coercion options) Numbers) None None
             (version options))"
| "parse E options parent name siblings (SMin n) = Some (zodKeywordMapper_min (Some n))"
| "parse E options parent name siblings (SMax n) = Some (zodKeywordMapper_max (Some n))"
| "parse E options parent name siblings (SDatetime offset local) =
     Some (zodKeywordMapper_datetime offset local (version options))"
| "parse E options parent name siblings (SDate t) =
     Some (zodKeywordMapper_date t (shouldCoerce (coercion options) Dates) (version options))"
| "parse E options parent name siblings (STime t) =
     Some (zodKeywordMapper_time t (shouldCoerce (coercion options) Dates) (version options))"
| "parse E options parent name siblings SOptional =
     (if list_ex (\<lambda>schema. isKeyword schema ''default'') siblings then Some []
      else Some zodKeywordMapper_optional)"
| "parse E options parent name siblings SAny = Some zodKeywordMapper_any"
| "parse E options parent name siblings SUnknown = Some zodKeywordMapper_unknown"
| "parse E options parent name siblings SVoid = Some zodKeywordMapper_void"
| "parse E options parent name siblings SInterface = Some (zodKeywordMapper_interface None None)"
| "parse E options parent name siblings SBoolean = Some zodKeywordMapper_boolean"
| "parse E options parent name siblings SUndefined = Some zodKeywordMapper_undefined"
| "parse E options parent name siblings SNullable = Some zodKeywordMapper_nullable"
| "parse E options parent name siblings SNull = Some zodKeywordMapper_null"
| "parse E options parent name siblings SNullish = Some zodKeywordMapper_nullish"
| "parse E options parent name siblings SBlob = Some zodKeywordMapper_blob"
| "parse E options parent name siblings SCatchall = zodKeywordMapper_catchall None"
  by pat_completeness auto

text \<open>
  Termination: every recursive call is on a member of the node's own lists, or (for an enum
  as constants) on a const node built from a member, which the measure ranks below the enum.
\<close>

definition parse_measure :: "schema \<Rightarrow> nat" where
  "parse_measure s = 2 * size s + (case s of SEnum a b \<Rightarrow> 1 | _ \<Rightarrow> 0)"

lemma set_sort_schemas [simp]: "set (sort_schemas (Some xs)) = set xs"
  by (simp add: sort_schemas_def orderBy_def)

lemma parse_measure_le: "parse_measure s \<le> 2 * size s + 1"
  by (simp add: parse_measure_def split: schema.splits)

lemma size_member: "x \<in> set xs \<Longrightarrow> size x < size_list size xs"
  by (induction xs) auto

lemma parse_measure_member: "x \<in> set xs \<Longrightarrow> parse_measure x < 2 * size_list size xs"
  using parse_measure_le [of x] size_member [of x xs] by linarith

lemma size_property:
  "(n, ss) \<in> set ps \<Longrightarrow> size_list size ss < size_list (size_prod (\<lambda>x. 0) (size_list size)) ps"
  by (induction ps) auto

lemma parse_measure_property:
  "(n, ss) \<in> set ps \<Longrightarrow> x \<in> set ss \<Longrightarrow>
     parse_measure x < 2 * size_list (size_prod (\<lambda>x. 0) (size_list size)) ps"
  using parse_measure_member [of x ss] size_property [of n ss ps] by linarith

termination parse
proof (relation "measure (\<lambda>(E, options, parent, name, siblings, current). parse_measure current)",
    goal_cases)
  case 1
  show ?case by simp
next
  case (2 E options parent name siblings m)
  show ?case using parse_measure_member [of m "[m]"] by (simp add: parse_measure_def)
next
  case (3 E options parent name siblings v va vb x)
  then show ?case
    using parse_measure_member [of x "v # va # vb"] by (simp add: parse_measure_def)
next
  case (4 E options parent name siblings args x xa)
  then show ?case
    using parse_measure_member [of xa args] by (simp add: parse_measure_def)
next
  case (5 E options parent name siblings items mn mx unique x)
  then show ?case
    using parse_measure_member [of x items] by (simp add: parse_measure_def)
next
  case 6
  show ?case by (simp add: parse_measure_def)
next
  case 7
  then show ?case by (auto simp add: parse_measure_def)
next
  case (8 E options parent name siblings properties additionalProperties strict x xa y xb)
  then show ?case
    using parse_measure_property [of xa y properties xb] by (simp add: parse_measure_def)
next
  case (9 E options parent name siblings properties additionalProperties strict x xa)
  then show ?case
    using parse_measure_member [of xa additionalProperties] by (simp add: parse_measure_def)
next
  case (10 E options parent name siblings items x)
  then show ?case
    using parse_measure_member [of x items] by (simp add: parse_measure_def)
qed

subsection \<open>Nodes whose keyword is no key of the table\<close>





section \<open>Path resolution of \<^verbatim>\<open>plugin-angular\<close>\<close>

text \<open>\<^verbatim>\<open>KubbFile.Mode\<close>.\<close>

datatype mode = Single | Split

text \<open>
  \<^verbatim>\<open>Group\<close> of \<^verbatim>\<open>@kubb/core\<close>: \<^verbatim>\<open>{ type, name? }\<close>. The name function receives
  \<^verbatim>\<open>{ group }\<close>, the group key; the key is \<^verbatim>\<open>undefined\<close> when the per-call options lack it.
\<close>

record Group =
  group_type :: string
  group_name :: "(string option \<Rightarrow> string) option"

text \<open>The plugin's options as \<^verbatim>\<open>pluginAngular\<close> reads them for \<^verbatim>\<open>resolvePath\<close>.\<close>

record Options =
  output_path :: "string option"
  group :: "Group option"

text \<open>\<^verbatim>\<open>this.config\<close>: \<^verbatim>\<open>root\<close> and \<^verbatim>\<open>output.path\<close>.\<close>

record Config =
  config_root :: string
  config_output_path :: string

text \<open>\<^verbatim>\<open>ResolvePathOptions\<close>: \<^verbatim>\<open>group?: { tag?, path? }\<close>.\<close>

record ResolvePathGroup =
  tag :: "string option"
  path :: "string option"

record ResolvePathOptions =
  options_group :: "ResolvePathGroup option"

text \<open>
  Imported and not under \<^verbatim>\<open>src/\<close>, hence parameters: \<^verbatim>\<open>path.resolve\<close> of Node (it also
  reads the working directory), \<^verbatim>\<open>FileManager.getMode\<close>, \<^verbatim>\<open>pascalCase\<close> and \<^verbatim>\<open>camelCase\<close>.
\<close>

record path_externals =
  path_resolve :: "string list \<Rightarrow> string"
  getMode :: "string \<Rightarrow> mode"
  pascalCase :: "string \<Rightarrow> string"
  camelCase :: "string option \<Rightarrow> string"

text \<open>\<^verbatim>\<open>String.prototype.split\<close> at one separator character.\<close>

fun split :: "string \<Rightarrow> char \<Rightarrow> string list" where
  "split [] sep = [[]]"
| "split (c # cs) sep =
     (if c = sep then [] # split cs sep
      else (case split cs sep of [] \<Rightarrow> [[c]] | w # ws \<Rightarrow> (c # w) # ws))"

text \<open>Reading an array at an index: \<^verbatim>\<open>undefined\<close> out of range.\<close>

definition at_index :: "'a list \<Rightarrow> nat \<Rightarrow> 'a option" where
  "at_index xs i = (if i < length xs then Some (xs ! i) else None)"

text \<open>
  The default group name, the arrow function of the source; \<^verbatim>\<open>ctx.group.split\<close> on an
  absent key is a \<^verbatim>\<open>TypeError\<close>.
\<close>

definition default_groupName ::
  "path_externals \<Rightarrow> Group \<Rightarrow> string option \<Rightarrow> error + string" where
  "default_groupName X g ctx_group =
     (if group_type g = ''path'' then
        (case ctx_group of
           None \<Rightarrow> Inl TypeError
         | Some k \<Rightarrow> Inr (template_opt (at_index (split k CHR ''/'') 1)))
      else if group_type g = ''tag'' then
        Inr (pascalCase X (template_opt ctx_group @ ''Service''))
      else Inr (camelCase X ctx_group))"

definition groupName :: "path_externals \<Rightarrow> Group \<Rightarrow> string option \<Rightarrow> error + string" where
  "groupName X g ctx_group =
     (case group_name g of
        Some f \<Rightarrow> Inr (f ctx_group)
      | None \<Rightarrow> default_groupName X g ctx_group)"

text \<open>The plugin's \<^verbatim>\<open>output\<close> option defaults to \<^verbatim>\<open>{ path: 'services' }\<close>.\<close>

definition plugin_output :: "Options \<Rightarrow> string" where
  "plugin_output popts = (case output_path popts of None \<Rightarrow> ''services'' | Some p \<Rightarrow> p)"

definition root :: "path_externals \<Rightarrow> Config \<Rightarrow> string" where
  "root X config = path_resolve X [config_root config, config_output_path config]"

definition resolve_mode :: "path_externals \<Rightarrow> Config \<Rightarrow> Options \<Rightarrow> mode option \<Rightarrow> mode" where
  "resolve_mode X config popts pathMode =
     (case pathMode of
        Some m \<Rightarrow> m
      | None \<Rightarrow> getMode X (path_resolve X [root X config, plugin_output popts]))"

text \<open>The key handed to the name function: the path for group type \<^verbatim>\<open>'path'\<close>, else the tag.\<close>

definition group_key :: "Group \<Rightarrow> ResolvePathGroup \<Rightarrow> string option" where
  "group_key g og = (if group_type g = ''path'' then path og else tag og)"

definition resolvePath ::
  "path_externals \<Rightarrow> Config \<Rightarrow> Options \<Rightarrow> string \<Rightarrow> mode option \<Rightarrow> ResolvePathOptions option
     \<Rightarrow> error + string" where
  "resolvePath X config popts baseName pathMode options =
     (if resolve_mode X config popts pathMode = Single
      then Inr (path_resolve X [root X config, plugin_output popts])
      else
        (case (group popts, case options of None \<Rightarrow> None | Some opts \<Rightarrow> options_group opts) of
           (Some g, Some og) \<Rightarrow>
             (if truthy_string (path og) \<or> truthy_string (tag og)
              then
                (case groupName X g (group_key g og) of
                   Inl e \<Rightarrow> Inl e
                 | Inr dir \<Rightarrow>
                     Inr (path_resolve X [root X config, plugin_output popts, dir, baseName]))
              else Inr (path_resolve X [root X config, plugin_output popts, baseName]))
         | _ \<Rightarrow> Inr (path_resolve X [root X config, plugin_output popts, baseName])))"

section \<open>Notions the claims are stated with\<close>

text \<open>The group of a node read off its position in \<open>order\<close> (\<open>-1\<close> for an unlisted keyword).\<close>

definition group_of_index :: "int \<Rightarrow> nat" where
  "group_of_index i = (if 20 \<le> i then 3 else if 18 \<le> i then 2 else if 16 \<le> i then 1 else 0)"

text \<open>
  The resolved members of an intersection node: the array \<^verbatim>\<open>items\<close> that \<^verbatim>\<open>parse\<close> builds
  in its \<^verbatim>\<open>and\<close> branch.
\<close>

definition and_items ::
  "externals \<Rightarrow> 'r ParserOptions \<Rightarrow> string option \<Rightarrow> schema list \<Rightarrow> string list" where
  "and_items E options name args =
     (let members =
            filter (\<lambda>schema. keyword schema \<notin> set [''optional'', ''describe''])
              (sort_schemas (Some args))
      in filter_Boolean
           (map (\<lambda>schema. parse E options (Some (SAnd args)) name members schema) members))"



text \<open>Sample values of the parameters, for the concrete instances below.\<close>

abbreviation example_externals :: externals where
  "example_externals \<equiv>
     \<lparr>stringify = (\<lambda>v. dquote @ (case v of None \<Rightarrow> [] | Some x \<Rightarrow> template x) @ dquote),
      toRegExpString = (\<lambda>s. CHR ''/'' # s @ ''/''),
      js_Number = (\<lambda>v. v),
      SchemaGenerator_find = (\<lambda>tree k. find (\<lambda>s. keyword s = k) tree)\<rparr>"

abbreviation example_options :: "version \<Rightarrow> unit ParserOptions" where
  "example_options v \<equiv>
     \<lparr>mapper = None, coercion = None, wrapOutput = None,
      rawSchema_properties = (\<lambda>n. None), version = v\<rparr>"

abbreviation example_path_externals :: path_externals where
  "example_path_externals \<equiv>
     \<lparr>path_resolve = (\<lambda>segments. join segments ''/''),
      getMode = (\<lambda>p. if CHR ''.'' \<in> set p then Single else Split),
      pascalCase = (\<lambda>s. s),
      camelCase = (\<lambda>s. template_opt s)\<rparr>"

abbreviation example_config :: Config where
  "example_config \<equiv> \<lparr>config_root = ''app'', config_output_path = ''src/gen''\<rparr>"

section \<open>The canonical sibling order\<close>

lemma group_of_index_mono: "i \<le> j \<Longrightarrow> group_of_index i \<le> group_of_index j"
  by (simp add: group_of_index_def)

lemma sibling_group_index: "sibling_group k = group_of_index (indexOf order k)"
  by (simp add: sibling_group_def group_of_index_def indexOf_def order_def)

lemma sorted_map_group:
  "sorted (map f xs) \<Longrightarrow> sorted (map (\<lambda>x. group_of_index (f x)) xs)"
  by (induction xs) (auto intro: group_of_index_mono)

lemma map_key_sort_key: "map f (sort_key f xs) = sort (map f xs)"
proof -
  have "mset (map f (sort_key f xs)) = mset (map f xs)" by simp
  moreover have "sorted (map f (sort_key f xs))" by (rule sorted_sort_key)
  ultimately show ?thesis by (rule properties_for_sort [symmetric])
qed

lemma sort_schemas_groups:
  "map (\<lambda>v. sibling_group (keyword v)) (sort_schemas (Some items)) =
     map group_of_index (sort (map (\<lambda>v. indexOf order (keyword v)) items))"
proof -
  have "map (\<lambda>v. sibling_group (keyword v)) (sort_schemas (Some items)) =
        map group_of_index (map (\<lambda>v. indexOf order (keyword v)) (sort_schemas (Some items)))"
    by (simp add: sibling_group_index)
  also have "map (\<lambda>v. indexOf order (keyword v)) (sort_schemas (Some items)) =
        sort (map (\<lambda>v. indexOf order (keyword v)) items)"
    by (simp add: sort_schemas_def orderBy_def map_key_sort_key)
  finally show ?thesis .
qed

text \<open>The sort is stable: the nodes of one sort key stand in the output as in the input.\<close>

lemma sort_schemas_stable:
  "filter (\<lambda>v. indexOf order (keyword v) = k) (sort_schemas (Some items)) =
     filter (\<lambda>v. indexOf order (keyword v) = k) items"
  by (simp add: sort_schemas_def orderBy_def sort_key_stable)

text \<open>
  C1. For every list of sibling nodes, \<^verbatim>\<open>sort\<close> returns the same nodes rearranged so that
  the groups stand in the canonical order: primary and format nodes first, then the bound
  constraints (min, max), then default and describe, and optional, nullable and nullish last.
  The order of the groups does not depend on the order of the input: any rearrangement of
  the input sorts to the same sequence of groups. (Within the list, nodes of equal sort key
  keep the order they came in, the sort being stable.)
\<close>

theorem sort_canonical_order:
  "mset (sort_schemas (Some items)) = mset items \<and>
   sorted (map (\<lambda>v. sibling_group (keyword v)) (sort_schemas (Some items))) \<and>
   (\<forall>items'. mset items' = mset items \<longrightarrow>
      map (\<lambda>v. sibling_group (keyword v)) (sort_schemas (Some items')) =
      map (\<lambda>v. sibling_group (keyword v)) (sort_schemas (Some items)))"
proof (intro conjI allI impI)
  show "mset (sort_schemas (Some items)) = mset items"
    by (simp add: sort_schemas_def orderBy_def)
  have "sorted (map (\<lambda>v. indexOf order (keyword v)) (sort_schemas (Some items)))"
    by (simp add: sort_schemas_def orderBy_def)
  then have "sorted (map (\<lambda>v. group_of_index (indexOf order (keyword v)))
      (sort_schemas (Some items)))"
    by (rule sorted_map_group)
  then show "sorted (map (\<lambda>v. sibling_group (keyword v)) (sort_schemas (Some items)))"
    by (simp add: sibling_group_index)
next
  fix items' :: "schema list"
  assume "mset items' = mset items"
  then have "mset (map (\<lambda>v. indexOf order (keyword v)) items') =
             mset (map (\<lambda>v. indexOf order (keyword v)) items)"
    by (metis mset_map)
  then have "sort (map (\<lambda>v. indexOf order (keyword v)) items') =
             sort (map (\<lambda>v. indexOf order (keyword v)) items)"
    by (metis properties_for_sort sorted_sort mset_sort)
  then show "map (\<lambda>v. sibling_group (keyword v)) (sort_schemas (Some items')) =
      map (\<lambda>v. sibling_group (keyword v)) (sort_schemas (Some items))"
    by (simp add: sort_schemas_groups)
qed

text \<open>
  An instance: seven siblings in document order and a rearrangement of them. Both sort to
  the groups \<open>0, 1, 1, 2, 2, 3, 3\<close>.
\<close>

theorem sort_canonical_order_witness:
  "mset [SNullable, SDescribe ''d'', SString, SOptional, SMax 9, SDefault (JBoolean True), SMin 3] =
     mset [SOptional, SDescribe ''d'', SMax 9, SNullable, SDefault (JBoolean True), SMin 3, SString] \<and>
   sort_schemas
     (Some [SOptional, SDescribe ''d'', SMax 9, SNullable, SDefault (JBoolean True), SMin 3, SString]) =
     [SString, SMin 3, SMax 9, SDefault (JBoolean True), SDescribe ''d'', SOptional, SNullable] \<and>
   map (\<lambda>v. sibling_group (keyword v))
     (sort_schemas
       (Some [SNullable, SDescribe ''d'', SString, SOptional, SMax 9, SDefault (JBoolean True), SMin 3])) =
     [0, 1, 1, 2, 2, 3, 3]"
proof -
  have perm:
    "mset [SNullable, SDescribe ''d'', SString, SOptional, SMax 9, SDefault (JBoolean True), SMin 3] =
     mset [SOptional, SDescribe ''d'', SMax 9, SNullable, SDefault (JBoolean True), SMin 3, SString]"
    by simp
  have sorted:
    "sort_schemas
       (Some [SOptional, SDescribe ''d'', SMax 9, SNullable, SDefault (JBoolean True), SMin 3, SString]) =
     [SString, SMin 3, SMax 9, SDefault (JBoolean True), SDescribe ''d'', SOptional, SNullable]"
    by (simp add: sort_schemas_def orderBy_def indexOf_def order_def)
  have "map (\<lambda>v. sibling_group (keyword v))
     (sort_schemas
       (Some [SNullable, SDescribe ''d'', SString, SOptional, SMax 9, SDefault (JBoolean True), SMin 3])) =
     map (\<lambda>v. sibling_group (keyword v))
     (sort_schemas
       (Some [SOptional, SDescribe ''d'', SMax 9, SNullable, SDefault (JBoolean True), SMin 3, SString]))"
    using sort_canonical_order
      [of "[SOptional, SDescribe ''d'', SMax 9, SNullable, SDefault (JBoolean True), SMin 3, SString]"]
      perm by blast
  with perm sorted show ?thesis by (simp add: sibling_group_def)
qed

section \<open>Unions\<close>

text \<open>
  C2. A union of exactly one member parses to what that member parses to, in the same tree
  position (same parent, name and siblings); a union of no member parses to the empty
  string, which every caller's \<^verbatim>\<open>filter(Boolean)\<close> drops: no \<^verbatim>\<open>z.union\<close> wrapper and no error.
\<close>

theorem parse_union_collapse:
  "parse E options parent name siblings (SUnion [m]) = parse E options parent name siblings m \<and>
   parse E options parent name siblings (SUnion []) = Some []"
  by simp

theorem parse_union_collapse_witness:
  "parse example_externals (example_options V3) None None [] (SUnion [SString]) =
     Some ''z.string()'' \<and>
   parse example_externals (example_options V3) None None [] (SUnion []) = Some [] \<and>
   parse example_externals (example_options V3) None None [] (SUnion [SString, SBoolean]) =
     Some ''z.union([z.boolean(), z.string()])''"
  using parse_union_collapse [of example_externals "example_options V3" None None "[]" SString]
  by (simp add: zodKeywordMapper_string_def zodKeywordMapper_boolean_def
      zodKeywordMapper_union_def shouldCoerce_def bound_def sort_schemas_def orderBy_def indexOf_def
      order_def)

section \<open>Enumerations\<close>

lemma parse_const_nonempty: "parse_const E c \<noteq> []"
  by (simp add: parse_const_def zodKeywordMapper_const_def)

lemma filter_Boolean_Some: "\<forall>x \<in> set xs. x \<noteq> [] \<Longrightarrow> filter_Boolean (map Some xs) = xs"
  by (induction xs) auto

lemma parse_const_members:
  "filter_Boolean (map (parse E options p name sibs \<circ> SConst) items) = map (parse_const E) items"
  using filter_Boolean_Some [of "map (parse_const E) items"]
  by (simp add: comp_def parse_const_nonempty)

text \<open>
  C6, as stated, fails where the constants mode is active and the enum has no member: the
  claim's ``otherwise'' promises the enum expression, the code returns an empty union.
\<close>

theorem parse_enum_counterexample:
  "parse example_externals (example_options V3) None None [] (SEnum True []) =
     Some ''z.union([])'' \<and>
   parse example_externals (example_options V3) None None [] (SEnum True []) \<noteq>
     Some (zodKeywordMapper_enum (map (\<lambda>m. stringify example_externals (lit_value m)) []))"
  by (simp add: zodKeywordMapper_union_def zodKeywordMapper_enum_def)

text \<open>
  C6, amended. With the constants mode (\<^verbatim>\<open>asConst\<close>) active, an enum of exactly one member
  parses to that member's constant literal, and an enum of any other number of members
  (none included) to a union of its members' constant literals, in member order; with the
  mode inactive it parses to one enum expression over the serialized member values, in
  member order.
\<close>

theorem parse_enum:
  "parse E options parent name siblings (SEnum asConst items) =
     (if asConst then
        (if length items = 1 then Some (parse_const E (items ! 0))
         else Some (zodKeywordMapper_union (map (parse_const E) items)))
      else Some (zodKeywordMapper_enum (map (\<lambda>m. stringify E (lit_value m)) items)))"
  by (simp add: parse_const_members)

theorem parse_enum_witness:
  "parse example_externals (example_options V3) None None []
     (SEnum True [\<lparr>lit_format = FormatNumber, lit_value = Some (JNumber 5)\<rparr>]) =
     Some ''z.literal(5)'' \<and>
   parse example_externals (example_options V3) None None []
     (SEnum True [\<lparr>lit_format = FormatNumber, lit_value = Some (JNumber 5)\<rparr>,
                  \<lparr>lit_format = FormatBoolean, lit_value = Some (JBoolean True)\<rparr>]) =
     Some ''z.union([z.literal(5), z.literal(true)])'' \<and>
   parse example_externals (example_options V3) None None []
     (SEnum False [\<lparr>lit_format = FormatString, lit_value = Some (JString ''b'')\<rparr>,
                   \<lparr>lit_format = FormatString, lit_value = Some (JString ''a'')\<rparr>]) =
     Some (''z.enum(['' @ dquote @ ''b'' @ dquote @ '', '' @ dquote @ ''a'' @ dquote @ ''])'')"
  using
    parse_enum [of example_externals "example_options V3" None None "[]" True
      "[\<lparr>lit_format = FormatNumber, lit_value = Some (JNumber 5)\<rparr>]"]
    parse_enum [of example_externals "example_options V3" None None "[]" True
      "[\<lparr>lit_format = FormatNumber, lit_value = Some (JNumber 5)\<rparr>,
        \<lparr>lit_format = FormatBoolean, lit_value = Some (JBoolean True)\<rparr>]"]
    parse_enum [of example_externals "example_options V3" None None "[]" False
      "[\<lparr>lit_format = FormatString, lit_value = Some (JString ''b'')\<rparr>,
        \<lparr>lit_format = FormatString, lit_value = Some (JString ''a'')\<rparr>]"]
  by (simp add: parse_const_def zodKeywordMapper_const_def zodKeywordMapper_union_def
      zodKeywordMapper_enum_def show_int_def show_nat.simps digit_def show_bool_def)

section \<open>Intersections\<close>

lemma join_empty_sep: "join xs [] = concat xs"
  by (induction xs "[] :: string" rule: join.induct) simp_all

lemma join_take_1: "join (take 1 xs) sep = (case xs of [] \<Rightarrow> [] | a # rest \<Rightarrow> a)"
  by (cases xs) simp_all

text \<open>
  C7. An intersection node parses to the output of its first resolved member followed by
  one \<^verbatim>\<open>.and(...)\<close> per remaining resolved member; with exactly one resolved member that is
  the member's output alone, no wrapper. The resolved members are the non-empty outputs of
  the node's sorted members other than optional and describe (\<open>and_items\<close>); with none the
  output is the empty string.
\<close>

theorem parse_and:
  "parse E options parent name siblings (SAnd args) =
     Some (case and_items E options name args of
             [] \<Rightarrow> []
           | a # rest \<Rightarrow> a @ concat (map (\<lambda>item. ''.and('' @ item @ '')'') rest))"
  by (simp add: and_items_def Let_def join_take_1 zodKeywordMapper_and_def join_empty_sep
      split: list.splits)

theorem parse_and_witness:
  "and_items example_externals (example_options V3) None [SOptional, SRef (Some ''Pet'')] =
     [''z.lazy(() => Pet)''] \<and>
   parse example_externals (example_options V3) None None [] (SAnd [SOptional, SRef (Some ''Pet'')]) =
     Some ''z.lazy(() => Pet)'' \<and>
   and_items example_externals (example_options V3) None [SString, SRef (Some ''Pet''), SBoolean] =
     [''z.lazy(() => Pet)'', ''z.boolean()'', ''z.string()''] \<and>
   parse example_externals (example_options V3) None None []
     (SAnd [SString, SRef (Some ''Pet''), SBoolean]) =
     Some ''z.lazy(() => Pet).and(z.boolean()).and(z.string())''"
proof -
  have one:
    "and_items example_externals (example_options V3) None [SOptional, SRef (Some ''Pet'')] =
       [''z.lazy(() => Pet)'']"
    by (simp add: and_items_def sort_schemas_def orderBy_def indexOf_def order_def
        zodKeywordMapper_ref_def truthy_string_def)
  have three:
    "and_items example_externals (example_options V3) None [SString, SRef (Some ''Pet''), SBoolean] =
       [''z.lazy(() => Pet)'', ''z.boolean()'', ''z.string()'']"
    by (simp add: and_items_def sort_schemas_def orderBy_def indexOf_def order_def
        zodKeywordMapper_ref_def truthy_string_def zodKeywordMapper_boolean_def
        zodKeywordMapper_string_def shouldCoerce_def bound_def)
  show ?thesis
    using
      parse_and [of example_externals "example_options V3" None None "[]"
        "[SOptional, SRef (Some ''Pet'')]"]
      parse_and [of example_externals "example_options V3" None None "[]"
        "[SString, SRef (Some ''Pet''), SBoolean]"]
    by (simp add: one three del: parse.simps)
qed

section \<open>Keywords without a handler, references, optional\<close>




text \<open>
  C9. A reference node with a name parses to the name alone, inside \<^verbatim>\<open>z.lazy(() => ...)\<close>
  for version 3 and bare for version 4: nothing of the referenced schema is in the output.
  A reference node without a name (no \<^verbatim>\<open>args\<close>, or the empty name) yields \<^verbatim>\<open>undefined\<close>.
\<close>

theorem parse_ref:
  "parse E options parent name siblings (SRef r) =
     (case r of
        None \<Rightarrow> None
      | Some n \<Rightarrow>
          if n = [] then None
          else if version options = V4 then Some n
          else Some (''z.lazy(() => '' @ n @ '')''))"
  by (simp add: zodKeywordMapper_ref_def truthy_string_def split: option.splits)

theorem parse_ref_witness:
  "parse example_externals (example_options V3) None None [] (SRef (Some ''Pet'')) =
     Some ''z.lazy(() => Pet)'' \<and>
   parse example_externals (example_options V4) None None [] (SRef (Some ''Pet'')) = Some ''Pet'' \<and>
   parse example_externals (example_options V3) None None [] (SRef None) = None"
  using
    parse_ref [of example_externals "example_options V3" None None "[]" "Some ''Pet''"]
    parse_ref [of example_externals "example_options V4" None None "[]" "Some ''Pet''"]
    parse_ref [of example_externals "example_options V3" None None "[]" None]
  by simp

text \<open>
  C10. An optional node parses to the empty string when its siblings hold a default node,
  and to \<^verbatim>\<open>.optional()\<close> when they hold none.
\<close>

theorem parse_optional:
  "parse E options parent name siblings SOptional =
     (if (\<exists>s \<in> set siblings. keyword s = ''default'') then Some [] else Some ''.optional()'')"
  by (simp add: list_ex_iff isKeyword_def zodKeywordMapper_optional_def)

theorem parse_optional_witness:
  "parse example_externals (example_options V3) None None
     [SString, SDefault (JString ''x''), SOptional] SOptional = Some [] \<and>
   parse example_externals (example_options V3) None None [SString, SOptional] SOptional =
     Some ''.optional()''"
  using
    parse_optional [of example_externals "example_options V3" None None
      "[SString, SDefault (JString ''x''), SOptional]"]
    parse_optional [of example_externals "example_options V3" None None "[SString, SOptional]"]
  by simp

section \<open>Path resolution\<close>

text \<open>
  C4. When the mode is \<^verbatim>\<open>'single'\<close> (given as the path mode, or found by
  \<^verbatim>\<open>FileManager.getMode\<close> when none is given), \<^verbatim>\<open>resolvePath\<close> returns the plugin's output
  path resolved against the build root, whatever the base name and the per-call options.
\<close>

theorem resolvePath_single:
  "resolve_mode X config popts pathMode = Single \<Longrightarrow>
     resolvePath X config popts baseName pathMode options =
       Inr (path_resolve X [root X config, plugin_output popts])"
  by (simp add: resolvePath_def)

theorem resolvePath_single_witness:
  "resolve_mode example_path_externals example_config
     \<lparr>output_path = Some ''api.ts'', group = Some \<lparr>group_type = ''tag'', group_name = None\<rparr>\<rparr> None = Single \<and>
   resolvePath example_path_externals example_config
     \<lparr>output_path = Some ''api.ts'', group = Some \<lparr>group_type = ''tag'', group_name = None\<rparr>\<rparr>
     ''getPet.ts'' None (Some \<lparr>options_group = Some \<lparr>tag = Some ''pet'', path = None\<rparr>\<rparr>) =
     Inr ''app/src/gen/api.ts'' \<and>
   resolvePath example_path_externals example_config
     \<lparr>output_path = Some ''api.ts'', group = Some \<lparr>group_type = ''tag'', group_name = None\<rparr>\<rparr>
     ''listStores.ts'' None None =
     Inr ''app/src/gen/api.ts''"
proof -
  have single:
    "resolve_mode example_path_externals example_config
       \<lparr>output_path = Some ''api.ts'', group = Some \<lparr>group_type = ''tag'', group_name = None\<rparr>\<rparr> None = Single"
    by (simp add: resolve_mode_def root_def plugin_output_def)
  show ?thesis
    using single
      resolvePath_single [OF single, of "''getPet.ts''"
        "Some \<lparr>options_group = Some \<lparr>tag = Some ''pet'', path = None\<rparr>\<rparr>"]
      resolvePath_single [OF single, of "''listStores.ts''" None]
    by (simp add: root_def plugin_output_def)
qed







end
